theory Spec2Isabelle
  imports Complex_Main "HOL-Library.Sublist"
begin

section \<open>JavaScript values\<close>

text \<open>
  A JavaScript string is a sequence of UTF-16 code units; it is modelled as the list of
  their codes. \<open>js\<close> writes an ASCII literal of the source as such a list.
\<close>

type_synonym jsstring = "nat list"

definition js :: "string \<Rightarrow> jsstring" where
  "js s = map of_char s"

text \<open>
  A JavaScript number is a finite value, NaN or an infinity. Finite values are modelled by
  the real they denote (every finite double is one; \<open>+0\<close> and \<open>-0\<close> coincide, as they
  do for every comparison and for the membership test of a \<open>Set\<close>). Comparisons and
  \<open>Math.round\<close> are exact on doubles, so they are the operations of the reals here.
\<close>

datatype number = Num real | NaN | PosInf | NegInf

text \<open>\<open>a <= b\<close>: false as soon as one side is NaN.\<close>

fun js_le :: "number \<Rightarrow> number \<Rightarrow> bool" where
  "js_le NaN b = False"
| "js_le a NaN = False"
| "js_le (Num a) (Num b) = (a \<le> b)"
| "js_le NegInf b = True"
| "js_le a PosInf = True"
| "js_le a b = False"

text \<open>\<open>a < b\<close>.\<close>

fun js_lt :: "number \<Rightarrow> number \<Rightarrow> bool" where
  "js_lt NaN b = False"
| "js_lt a NaN = False"
| "js_lt (Num a) (Num b) = (a < b)"
| "js_lt PosInf b = False"
| "js_lt a NegInf = False"
| "js_lt a b = True"

text \<open>\<open>a >= b\<close> and \<open>a > b\<close> are the mirrored comparisons.\<close>

definition js_ge :: "number \<Rightarrow> number \<Rightarrow> bool" where
  "js_ge a b = js_le b a"

definition js_gt :: "number \<Rightarrow> number \<Rightarrow> bool" where
  "js_gt a b = js_lt b a"

text \<open>\<open>Math.round\<close>: the nearest integer, a half rounded towards \<open>+\<infinity>\<close>.\<close>

fun Math_round :: "number \<Rightarrow> number" where
  "Math_round (Num x) = Num (of_int \<lfloor>x + 1 / 2\<rfloor>)"
| "Math_round v = v"

section \<open>Data model of get_transcript.ts\<close>

record TranscriptSnippet =
  snip_text :: jsstring
  snip_start :: number
  snip_duration :: number

text \<open>
  \<open>ParseResult\<close>: an optional field of the source is an \<open>option\<close> here (\<open>None\<close> is
  \<open>undefined\<close>). The fields carry the prefix \<open>opt_\<close> because \<open>from\<close> is a keyword.
\<close>

record ParseResult =
  opt_video :: "jsstring option"
  opt_timestamps :: bool
  opt_from :: "number option"
  opt_to :: "number option"
  opt_only :: "number list option"
  opt_exclude :: "(number \<times> number) list option"

text \<open>
  Every failure of the source is a thrown \<open>Error\<close> (or an error line followed by
  \<open>process.exit(1)\<close>) that differs from the others by its message only. The
  constructors name the kinds of the specification:
  \<^item> \<open>InvalidTimeFormat\<close>: \<^verbatim>\<open>Invalid time: "..." (expected ...)\<close>
  \<^item> \<open>InvalidRangeFormat\<close>: \<^verbatim>\<open>Invalid exclude range: "..." (expected START-END, ...)\<close>
  \<^item> \<open>InvalidRangeOrder\<close>: \<^verbatim>\<open>Invalid exclude range: "..." (start must be <= end)\<close> and
    \<^verbatim>\<open>--from must be <= --to\<close>
  \<^item> \<open>RequestBlocked\<close>: \<^verbatim>\<open>Request blocked. Try again later.\<close>
  \<^item> \<open>AgeRestricted\<close>: \<^verbatim>\<open>Video is age-restricted or unavailable.\<close>
  \<^item> \<open>VideoUnavailable\<close>: \<^verbatim>\<open>Video is unavailable.\<close>
  \<^item> \<open>VideoUnplayable r\<close>: \<^verbatim>\<open>Video unplayable: \<close> followed by the reason \<open>r\<close>
  \<^item> \<open>CaptionsDisabled\<close>: \<^verbatim>\<open>Transcripts are disabled for this video.\<close>
  \<^item> \<open>TimestampsRequired\<close>: \<^verbatim>\<open>Time range options (...) require --timestamps.\<close>
  \<^item> \<open>ConflictingSelection\<close>: \<^verbatim>\<open>Cannot use --from/--to with --only.\<close>
  \<^item> \<open>UsageError\<close>: the usage line printed when no video is given.
\<close>

datatype error =
    InvalidTimeFormat
  | InvalidRangeFormat
  | InvalidRangeOrder
  | RequestBlocked
  | AgeRestricted
  | VideoUnavailable
  | VideoUnplayable jsstring
  | CaptionsDisabled
  | TimestampsRequired
  | ConflictingSelection
  | UsageError

section \<open>String primitives\<close>

text \<open>
  The code units that \<open>trim\<close>, \<open>parseInt\<close> and \<open>parseFloat\<close> skip: WhiteSpace and
  LineTerminator of ECMAScript (TAB, LF, VT, FF, CR, SP, NBSP, U+1680, U+2000 to U+200A,
  U+2028, U+2029, U+202F, U+205F, U+3000, U+FEFF).
\<close>

definition is_ws :: "nat \<Rightarrow> bool" where
  "is_ws c = (c \<in> {9, 10, 11, 12, 13, 32, 160, 5760, 8232, 8233, 8239, 8287, 12288, 65279}
              \<or> (8192 \<le> c \<and> c \<le> 8202))"

definition trim :: "jsstring \<Rightarrow> jsstring" where
  "trim s = rev (dropWhile is_ws (rev (dropWhile is_ws s)))"

definition is_digit :: "nat \<Rightarrow> bool" where
  "is_digit c = (48 \<le> c \<and> c \<le> 57)"

text \<open>The value of a run of decimal digits, read left to right.\<close>

definition digits_value :: "jsstring \<Rightarrow> nat" where
  "digits_value ds = foldl (\<lambda>acc c. acc * 10 + (c - 48)) 0 ds"

text \<open>
  \<open>parseInt(s, 10)\<close>: leading white space is skipped, one sign is read, then the longest
  run of decimal digits; whatever follows the run is ignored. \<open>None\<close> is NaN (no digit).
  The value is the exact integer: JavaScript rounds it to a double, which changes nothing
  below \<open>2 ^ 53\<close>.
\<close>

definition parseInt10 :: "jsstring \<Rightarrow> int option" where
  "parseInt10 s =
     (let t = dropWhile is_ws s;
          neg = (case t of [] \<Rightarrow> False | c # r \<Rightarrow> c = 45);
          u = (case t of [] \<Rightarrow> [] | c # r \<Rightarrow> if c = 43 \<or> c = 45 then r else t);
          z = takeWhile is_digit u
      in if z = [] then None
         else Some (if neg then - int (digits_value z) else int (digits_value z)))"

text \<open>\<open>s.split(sep)\<close> for a separator of one code unit.\<close>

fun js_split :: "nat \<Rightarrow> jsstring \<Rightarrow> jsstring list" where
  "js_split c [] = [[]]"
| "js_split c (x # xs) =
     (if x = c then [] # js_split c xs
      else (case js_split c xs of [] \<Rightarrow> [[x]] | p # ps \<Rightarrow> (x # p) # ps))"


text \<open>\<open>s.includes(pat)\<close>.\<close>

fun js_includes :: "jsstring \<Rightarrow> jsstring \<Rightarrow> bool" where
  "js_includes [] pat = (pat = [])"
| "js_includes (x # xs) pat = (prefix pat (x # xs) \<or> js_includes xs pat)"

text \<open>\<open>parts.join(sep)\<close>.\<close>

fun join :: "jsstring \<Rightarrow> jsstring list \<Rightarrow> jsstring" where
  "join sep [] = []"
| "join sep [x] = x"
| "join sep (x # y # r) = x @ sep @ join sep (y # r)"

text \<open>\<open>s.padStart(n, pad)\<close>.\<close>

definition padStart :: "jsstring \<Rightarrow> nat \<Rightarrow> jsstring \<Rightarrow> jsstring" where
  "padStart s n pad =
     (if n \<le> length s \<or> pad = [] then s
      else take (n - length s) (concat (replicate (n - length s) pad)) @ s)"

text \<open>The decimal digits of a natural number, and \<open>String(i)\<close> for an integer.\<close>

fun digits10 :: "nat \<Rightarrow> jsstring" where
  "digits10 n = (if n < 10 then [48 + n] else digits10 (n div 10) @ [48 + n mod 10])"

declare digits10.simps [simp del]

definition String_int :: "int \<Rightarrow> jsstring" where
  "String_int i = (if i < 0 then 45 # digits10 (nat (- i)) else digits10 (nat i))"

section \<open>Time parser\<close>

definition parseTimeString :: "jsstring \<Rightarrow> error + int" where
  "parseTimeString s =
     (let trimmed = trim s
      in if trimmed = [] then Inl InvalidTimeFormat
         else
           (let parts = js_split 58 trimmed
            in if length parts = 2 then
                 (case (parseInt10 (parts ! 0), parseInt10 (parts ! 1)) of
                    (Some m, Some sec) \<Rightarrow>
                      if m < 0 \<or> sec < 0 \<or> sec > 59 then Inl InvalidTimeFormat
                      else Inr (m * 60 + sec)
                  | _ \<Rightarrow> Inl InvalidTimeFormat)
               else if length parts = 3 then
                 (case (parseInt10 (parts ! 0), parseInt10 (parts ! 1), parseInt10 (parts ! 2)) of
                    (Some h, Some m, Some sec) \<Rightarrow>
                      if h < 0 \<or> m < 0 \<or> m > 59 \<or> sec < 0 \<or> sec > 59 then Inl InvalidTimeFormat
                      else Inr (h * 3600 + m * 60 + sec)
                  | _ \<Rightarrow> Inl InvalidTimeFormat)
               else Inl InvalidTimeFormat))"


section \<open>Timestamps\<close>

text \<open>
  \<open>x / c\<close> and \<open>x % c\<close> for a positive constant \<open>c\<close> (3600 and 60 in the source), and
  \<open>Math.floor\<close>. The remainder of JavaScript has the sign of the dividend. The quotient
  is the exact one: the rounding of the double quotient does not change its floor on whole
  seconds below \<open>2 ^ 53\<close>.
\<close>

fun js_div :: "number \<Rightarrow> real \<Rightarrow> number" where
  "js_div (Num x) c = Num (x / c)"
| "js_div v c = v"

fun js_rem :: "number \<Rightarrow> real \<Rightarrow> number" where
  "js_rem (Num x) c = Num (x - c * of_int (if 0 \<le> x then \<lfloor>x / c\<rfloor> else \<lceil>x / c\<rceil>))"
| "js_rem v c = NaN"

fun Math_floor :: "number \<Rightarrow> number" where
  "Math_floor (Num x) = Num (of_int \<lfloor>x\<rfloor>)"
| "Math_floor v = v"

text \<open>
  \<open>String(v)\<close> for the results of \<open>Math.floor\<close>: an integer prints its decimal digits
  (below \<open>10 ^ 21\<close>, where JavaScript switches to the exponent notation).
\<close>

fun String_number :: "number \<Rightarrow> jsstring" where
  "String_number (Num x) = String_int \<lfloor>x\<rfloor>"
| "String_number NaN = js ''NaN''"
| "String_number PosInf = js ''Infinity''"
| "String_number NegInf = js ''-Infinity''"

definition formatTimestamp :: "number \<Rightarrow> jsstring" where
  "formatTimestamp seconds =
     (let h = Math_floor (js_div seconds 3600);
          m = Math_floor (js_div (js_rem seconds 3600) 60);
          s = Math_floor (js_rem seconds 60)
      in if js_gt h (Num 0) then
           padStart (String_number h) 2 (js ''0'') @ js '':''
             @ padStart (String_number m) 2 (js ''0'') @ js '':''
             @ padStart (String_number s) 2 (js ''0'')
         else
           padStart (String_number m) 2 (js ''0'') @ js '':''
             @ padStart (String_number s) 2 (js ''0''))"

section \<open>Window filter\<close>

text \<open>
  The callback of the exclude pass: the \<open>for\<close> loop over \<open>opts.exclude\<close> returns
  \<open>false\<close> at the first range that holds the start, \<open>true\<close> after the last one.
\<close>

fun exclude_callback :: "(number \<times> number) list \<Rightarrow> TranscriptSnippet \<Rightarrow> bool" where
  "exclude_callback [] s = True"
| "exclude_callback ((lo, hi) # rest) s =
     (if js_ge (snip_start s) lo \<and> js_le (snip_start s) hi then False
      else exclude_callback rest s)"

definition filterSnippets ::
  "TranscriptSnippet list \<Rightarrow> ParseResult \<Rightarrow> error + TranscriptSnippet list" where
  "filterSnippets snippets opts =
     (let hasRange = (opt_from opts \<noteq> None \<or> opt_to opts \<noteq> None);
          hasOnly = (case opt_only opts of None \<Rightarrow> False | Some os \<Rightarrow> 0 < length os);
          selected =
            (if hasOnly then
               (case opt_only opts of
                  None \<Rightarrow> Inr snippets
                | Some os \<Rightarrow> Inr (filter (\<lambda>s. Math_round (snip_start s) \<in> set os) snippets))
             else if hasRange then
               (let fromSec = (case opt_from opts of None \<Rightarrow> Num 0 | Some f \<Rightarrow> f);
                    toSec = (case opt_to opts of None \<Rightarrow> PosInf | Some t \<Rightarrow> t)
                in if js_gt fromSec toSec then Inl InvalidRangeOrder
                   else Inr (filter (\<lambda>s. js_ge (snip_start s) fromSec \<and> js_le (snip_start s) toSec)
                              snippets))
             else Inr snippets)
      in case selected of
           Inl e \<Rightarrow> Inl e
         | Inr filtered \<Rightarrow>
             (case opt_exclude opts of
                None \<Rightarrow> Inr filtered
              | Some ex \<Rightarrow>
                  if 0 < length ex then Inr (filter (exclude_callback ex) filtered)
                  else Inr filtered))"

text \<open>
  The words of the specification for the window filter: the effective bounds of a range
  request, the exclude ranges of a request, and a start that lies in one of them.
\<close>

definition lower_bound :: "ParseResult \<Rightarrow> number" where
  "lower_bound opts = (case opt_from opts of None \<Rightarrow> Num 0 | Some f \<Rightarrow> f)"

definition upper_bound :: "ParseResult \<Rightarrow> number" where
  "upper_bound opts = (case opt_to opts of None \<Rightarrow> PosInf | Some t \<Rightarrow> t)"

definition exclude_ranges :: "ParseResult \<Rightarrow> (number \<times> number) list" where
  "exclude_ranges opts = (case opt_exclude opts of None \<Rightarrow> [] | Some ex \<Rightarrow> ex)"

definition in_some_range :: "(number \<times> number) list \<Rightarrow> number \<Rightarrow> bool" where
  "in_some_range ex x = (\<exists>(lo, hi) \<in> set ex. js_le lo x \<and> js_le x hi)"

section \<open>Entity unescaping\<close>









section \<open>Track metadata\<close>

record CaptionTrack =
  baseUrl :: jsstring
  languageCode :: jsstring
  kind :: "jsstring option"
  name :: "jsstring option list option option"

record PlayabilityStatus =
  status :: "jsstring option"
  reason :: "jsstring option"

record TracklistRenderer =
  captionTracks :: "CaptionTrack list option"

record Captions =
  playerCaptionsTracklistRenderer :: "TracklistRenderer option"

record InnertubePlayerResponse =
  playabilityStatus :: "PlayabilityStatus option"
  captions :: "Captions option"

text \<open>
  \<open>a?.f\<close> is \<open>Option.bind a f\<close>. \<open>status && ...\<close> holds for a status that is neither
  \<open>undefined\<close> nor the empty string; \<open>?? status\<close> replaces an \<open>undefined\<close> reason only;
  \<open>!tracks?.length\<close> holds for a list that is \<open>undefined\<close> or empty.
\<close>

definition getCaptionTracks ::
  "InnertubePlayerResponse \<Rightarrow> jsstring \<Rightarrow> error + CaptionTrack list" where
  "getCaptionTracks data videoId =
     (let unplayable =
            (case Option.bind (playabilityStatus data) status of
               None \<Rightarrow> None
             | Some st \<Rightarrow>
                 if st \<noteq> [] \<and> st \<noteq> js ''OK'' then
                   (let rsn = (case Option.bind (playabilityStatus data) reason of
                                 None \<Rightarrow> st | Some r \<Rightarrow> r)
                    in if st = js ''LOGIN_REQUIRED'' \<and> js_includes rsn (js ''bot'')
                       then Some RequestBlocked
                       else if js_includes rsn (js ''inappropriate'') then Some AgeRestricted
                       else if js_includes rsn (js ''unavailable'') then Some VideoUnavailable
                       else Some (VideoUnplayable rsn))
                 else None)
      in case unplayable of
           Some e \<Rightarrow> Inl e
         | None \<Rightarrow>
             (case Option.bind (Option.bind (captions data) playerCaptionsTracklistRenderer)
                     captionTracks of
                None \<Rightarrow> Inl CaptionsDisabled
              | Some tracks \<Rightarrow> if length tracks = 0 then Inl CaptionsDisabled else Inr tracks))"

section \<open>Timed-text parser\<close>







text \<open>\<^verbatim>\<open>.replace(/<[^>]*>/g, "")\<close>.\<close>

function strip_tags :: "jsstring \<Rightarrow> jsstring" where
  "strip_tags [] = []"
| "strip_tags (x # xs) =
     (if x = 60 \<and> 62 \<in> set xs then strip_tags (tl (dropWhile (\<lambda>c. c \<noteq> 62) xs))
      else x # strip_tags xs)"
  by pat_completeness auto
termination
proof (relation "measure length")
  fix x :: nat and xs :: jsstring
  have "length (dropWhile (\<lambda>c. c \<noteq> 62) xs) \<le> length xs"
    by (rule length_dropWhile_le)
  then show "(tl (dropWhile (\<lambda>c. c \<noteq> 62) xs), x # xs) \<in> measure length" by simp
qed simp_all







section \<open>Formatter and entry point\<close>

definition formatTranscript :: "TranscriptSnippet list \<Rightarrow> bool \<Rightarrow> jsstring" where
  "formatTranscript snippets withTimestamps =
     (if withTimestamps then
        join [10] (map (\<lambda>s. js ''['' @ formatTimestamp (snip_start s) @ js ''] '' @ snip_text s)
                     snippets)
      else join [10] (map snip_text snippets))"

text \<open>
  \<open>main\<close> after \<open>parseArgs\<close> has returned \<open>opts\<close>. The two network stages and
  \<open>extractVideoId\<close> are the parameter \<open>fetch\<close>: the snippets of the video, or the error
  they throw. The result is the transcript printed, or the error reported before
  \<open>process.exit(1)\<close>.
\<close>

definition main ::
  "ParseResult \<Rightarrow> (jsstring \<Rightarrow> error + TranscriptSnippet list) \<Rightarrow> error + jsstring" where
  "main opts fetch =
     (let hasOnly = (case opt_only opts of None \<Rightarrow> False | Some os \<Rightarrow> 0 < length os);
          hasExclude = (case opt_exclude opts of None \<Rightarrow> False | Some ex \<Rightarrow> 0 < length ex);
          hasRangeOpt = (opt_from opts \<noteq> None \<or> opt_to opts \<noteq> None \<or> hasOnly \<or> hasExclude)
      in if hasRangeOpt \<and> \<not> opt_timestamps opts then Inl TimestampsRequired
         else if (opt_from opts \<noteq> None \<or> opt_to opts \<noteq> None) \<and> hasOnly
         then Inl ConflictingSelection
         else
           (case opt_video opts of
              None \<Rightarrow> Inl UsageError
            | Some video \<Rightarrow>
                if video = [] then Inl UsageError
                else
                  (case fetch video of
                     Inl e \<Rightarrow> Inl e
                   | Inr snippets \<Rightarrow>
                       (case (if hasRangeOpt then filterSnippets snippets opts else Inr snippets) of
                          Inl e \<Rightarrow> Inl e
                        | Inr filtered \<Rightarrow> Inr (formatTranscript filtered (opt_timestamps opts))))))"

section \<open>Vocabulary of the specification\<close>

text \<open>
  The playability status, the reason text and the caption-track list of a response, as the
  specification names them.
\<close>

definition status_of :: "InnertubePlayerResponse \<Rightarrow> jsstring option" where
  "status_of data = Option.bind (playabilityStatus data) status"

definition reason_of :: "InnertubePlayerResponse \<Rightarrow> jsstring option" where
  "reason_of data = Option.bind (playabilityStatus data) reason"

definition tracks_of :: "InnertubePlayerResponse \<Rightarrow> CaptionTrack list option" where
  "tracks_of data =
     Option.bind (Option.bind (captions data) playerCaptionsTracklistRenderer) captionTracks"

text \<open>
  Time strings: a component made of decimal digits only, white space around the string,
  and the two digits of a zero-padded component.
\<close>

definition all_digits :: "jsstring \<Rightarrow> bool" where
  "all_digits ds = (ds \<noteq> [] \<and> list_all is_digit ds)"

definition all_ws :: "jsstring \<Rightarrow> bool" where
  "all_ws w = list_all is_ws w"

definition two_digits :: "nat \<Rightarrow> jsstring" where
  "two_digits k = [48 + k div 10, 48 + k mod 10]"







text \<open>
  The snippets and requests of the scenarios: a snippet with a text and a start, and a
  request with the timestamps flag set and a video given.
\<close>

abbreviation (input) snip :: "string \<Rightarrow> real \<Rightarrow> TranscriptSnippet" where
  "snip t x \<equiv> \<lparr>snip_text = js t, snip_start = Num x, snip_duration = Num 0\<rparr>"

abbreviation (input) request ::
  "number option \<Rightarrow> number option \<Rightarrow> number list option \<Rightarrow> (number \<times> number) list option
     \<Rightarrow> ParseResult" where
  "request f t os ex \<equiv>
     \<lparr>opt_video = Some (js ''dQw4w9WgXcQ''), opt_timestamps = True, opt_from = f, opt_to = t,
      opt_only = os, opt_exclude = ex\<rparr>"

section \<open>Properties of the window filter\<close>

lemma in_some_range_Nil: "in_some_range [] x = False"
  by (simp add: in_some_range_def)

lemma in_some_range_Cons:
  "in_some_range ((lo, hi) # ex) x = ((js_le lo x \<and> js_le x hi) \<or> in_some_range ex x)"
  by (simp add: in_some_range_def)

lemma exclude_callback_iff:
  "exclude_callback ex s = (\<not> in_some_range ex (snip_start s))"
proof (induction ex)
  case Nil
  show ?case by (simp add: in_some_range_Nil)
next
  case (Cons p ex)
  obtain lo hi where p: "p = (lo, hi)" by (cases p)
  show ?case
    unfolding p by (simp add: in_some_range_Cons js_ge_def Cons.IH)
qed

lemma filter_exclude_callback:
  "filter (exclude_callback ex) xs = filter (\<lambda>s. \<not> in_some_range ex (snip_start s)) xs"
  by (rule filter_cong) (simp_all add: exclude_callback_iff)

lemma js_le_not_gt: "js_le a b \<Longrightarrow> \<not> js_gt a b"
  unfolding js_gt_def by (cases a; cases b) simp_all

lemma filterSnippets_no_exclude:
  "filterSnippets snippets (opts\<lparr>opt_exclude := None\<rparr>) =
     (if (case opt_only opts of None \<Rightarrow> False | Some os \<Rightarrow> 0 < length os) then
        Inr (filter (\<lambda>s. Math_round (snip_start s) \<in> set (case opt_only opts of None \<Rightarrow> [] | Some os \<Rightarrow> os)) snippets)
      else if opt_from opts \<noteq> None \<or> opt_to opts \<noteq> None then
        (if js_gt (lower_bound opts) (upper_bound opts) then Inl InvalidRangeOrder
         else Inr (filter (\<lambda>s. js_le (lower_bound opts) (snip_start s)
                              \<and> js_le (snip_start s) (upper_bound opts)) snippets))
      else Inr snippets)"
  by (simp add: filterSnippets_def lower_bound_def upper_bound_def js_ge_def Let_def
           split: option.splits)

lemma filterSnippets_split:
  "filterSnippets snippets opts =
     (case filterSnippets snippets (opts\<lparr>opt_exclude := None\<rparr>) of
        Inl e \<Rightarrow> Inl e
      | Inr sel \<Rightarrow> Inr (filter (\<lambda>s. \<not> in_some_range (exclude_ranges opts) (snip_start s)) sel))"
  by (auto simp: filterSnippets_def Let_def exclude_ranges_def exclude_callback_iff filter_exclude_callback
        in_some_range_Nil split: option.splits sum.splits)

lemma in_some_range_set: "set ex' = set ex \<Longrightarrow> in_some_range ex' = in_some_range ex"
  by (rule ext) (simp add: in_some_range_def)

text \<open>
  Claim C1, as amended. When the \<open>only\<close> set of a request is not empty, \<open>filterSnippets\<close>
  returns, in the original order, the snippets whose start rounded to the nearest integer
  (a half rounded up) is a member of the set and whose unrounded start lies in no exclude
  range of the request; \<open>from\<close> and \<open>to\<close> play no part.
\<close>

theorem filterSnippets_only:
  assumes "opt_only opts = Some os" and "os \<noteq> []"
  shows "filterSnippets snippets opts =
           Inr (filter (\<lambda>s. Math_round (snip_start s) \<in> set os
                            \<and> \<not> in_some_range (exclude_ranges opts) (snip_start s)) snippets)"
  using assms by (simp add: filterSnippets_split [of snippets opts] filterSnippets_no_exclude)

text \<open>
  The scenario of C1: of the starts 58.2, 60.0 and 61.4 with \<open>only = {60}\<close>, exactly the
  snippet that starts at 60.0 is kept.
\<close>

theorem filterSnippets_only_witness:
  "filterSnippets [snip ''a'' 58.2, snip ''b'' 60.0, snip ''c'' 61.4]
      (request None None (Some [Num 60]) None) = Inr [snip ''b'' 60.0]"
  using filterSnippets_only
    [of "request None None (Some [Num 60]) None" "[Num 60]"
        "[snip ''a'' 58.2, snip ''b'' 60.0, snip ''c'' 61.4]"]
  by (simp add: exclude_ranges_def in_some_range_Nil)

text \<open>
  C1 as stated fails for a request that also has exclude ranges: the snippet at 60.0 has
  its rounded start in the \<open>only\<close> set, and the exclude range [60, 60] removes it.
\<close>

theorem filterSnippets_only_exclude_counterexample:
  "filterSnippets [snip ''b'' 60] (request None None (Some [Num 60]) (Some [(Num 60, Num 60)])) = Inr []
   \<and> Math_round (snip_start (snip ''b'' 60)) \<in> set [Num 60]"
  by (simp add: filterSnippets_def js_ge_def)

text \<open>
  Claim C2. With \<open>only\<close> absent or empty, \<open>from\<close> or \<open>to\<close> present, no exclude range and
  the lower bound (\<open>from\<close> or 0) at most the upper bound (\<open>to\<close> or \<open>+\<infinity>\<close>),
  \<open>filterSnippets\<close> returns, in the original order, exactly the snippets whose unrounded
  start lies between the two bounds, both included.
\<close>

theorem filterSnippets_range:
  assumes "opt_only opts = None \<or> opt_only opts = Some []"
    and "opt_from opts \<noteq> None \<or> opt_to opts \<noteq> None"
    and "opt_exclude opts = None \<or> opt_exclude opts = Some []"
    and "js_le (lower_bound opts) (upper_bound opts)"
  shows "filterSnippets snippets opts =
           Inr (filter (\<lambda>s. js_le (lower_bound opts) (snip_start s)
                            \<and> js_le (snip_start s) (upper_bound opts)) snippets)"
proof -
  have ex: "exclude_ranges opts = []"
    using assms(3) by (auto simp: exclude_ranges_def)
  have only: "\<not> (case opt_only opts of None \<Rightarrow> False | Some os \<Rightarrow> 0 < length os)"
    using assms(1) by auto
  show ?thesis
    using assms(2) js_le_not_gt [OF assms(4)] only
    by (simp add: filterSnippets_split [of snippets opts] filterSnippets_no_exclude ex
          in_some_range_Nil)
qed

text \<open>
  The scenario of C2: of the starts 58.2, 60.0 and 61.4 with \<open>from = 60\<close> and \<open>to = 61\<close>,
  exactly the snippet that starts at 60.0 is kept.
\<close>

theorem filterSnippets_range_witness:
  "filterSnippets [snip ''a'' 58.2, snip ''b'' 60.0, snip ''c'' 61.4]
      (request (Some (Num 60)) (Some (Num 61)) None None) = Inr [snip ''b'' 60.0]"
  using filterSnippets_range
    [of "request (Some (Num 60)) (Some (Num 61)) None None"
        "[snip ''a'' 58.2, snip ''b'' 60.0, snip ''c'' 61.4]"]
  by (simp add: lower_bound_def upper_bound_def)

text \<open>
  Claim C3. The exclude pass runs after the only/range selection (an error of the
  selection is passed on) and drops exactly the selected snippets whose unrounded start
  lies in \<open>[low, high]\<close>, both ends included, for at least one exclude range; the
  survivors keep their order; two exclude lists with the same ranges give the same result;
  and for a request with exclude ranges only, the length of the result is the length of
  the input minus the number of snippets whose start lies in some range.
\<close>

theorem filterSnippets_exclude:
  "filterSnippets snippets (opts\<lparr>opt_exclude := Some ex\<rparr>) =
     (case filterSnippets snippets (opts\<lparr>opt_exclude := None\<rparr>) of
        Inl e \<Rightarrow> Inl e
      | Inr sel \<Rightarrow> Inr (filter (\<lambda>s. \<not> in_some_range ex (snip_start s)) sel))
   \<and> (set ex' = set ex \<longrightarrow>
        filterSnippets snippets (opts\<lparr>opt_exclude := Some ex'\<rparr>) =
        filterSnippets snippets (opts\<lparr>opt_exclude := Some ex\<rparr>))
   \<and> ((opt_only opts = None \<or> opt_only opts = Some []) \<and> opt_from opts = None
        \<and> opt_to opts = None \<longrightarrow>
        filterSnippets snippets (opts\<lparr>opt_exclude := Some ex\<rparr>) =
          Inr (filter (\<lambda>s. \<not> in_some_range ex (snip_start s)) snippets)
        \<and> length (filter (\<lambda>s. \<not> in_some_range ex (snip_start s)) snippets) =
            length snippets - length (filter (\<lambda>s. in_some_range ex (snip_start s)) snippets))"
proof (intro conjI impI)
  show a: "filterSnippets snippets (opts\<lparr>opt_exclude := Some ex\<rparr>) =
     (case filterSnippets snippets (opts\<lparr>opt_exclude := None\<rparr>) of
        Inl e \<Rightarrow> Inl e
      | Inr sel \<Rightarrow> Inr (filter (\<lambda>s. \<not> in_some_range ex (snip_start s)) sel))"
    for ex
    using filterSnippets_split [of snippets "opts\<lparr>opt_exclude := Some ex\<rparr>"]
    by (simp add: exclude_ranges_def split: sum.splits)
  show "filterSnippets snippets (opts\<lparr>opt_exclude := Some ex'\<rparr>) =
        filterSnippets snippets (opts\<lparr>opt_exclude := Some ex\<rparr>)" if "set ex' = set ex"
    by (simp only: a in_some_range_set [OF that])
  assume h: "(opt_only opts = None \<or> opt_only opts = Some []) \<and> opt_from opts = None
        \<and> opt_to opts = None"
  then have "\<not> (case opt_only opts of None \<Rightarrow> False | Some os \<Rightarrow> 0 < length os)"
    by auto
  with h show "filterSnippets snippets (opts\<lparr>opt_exclude := Some ex\<rparr>) =
          Inr (filter (\<lambda>s. \<not> in_some_range ex (snip_start s)) snippets)"
    by (simp add: a filterSnippets_no_exclude)
  have "length (filter (\<lambda>s. in_some_range ex (snip_start s)) snippets)
          + length (filter (\<lambda>s. \<not> in_some_range ex (snip_start s)) snippets) = length snippets"
    by (rule sum_length_filter_compl)
  then show "length (filter (\<lambda>s. \<not> in_some_range ex (snip_start s)) snippets) =
            length snippets - length (filter (\<lambda>s. in_some_range ex (snip_start s)) snippets)"
    by linarith
qed

text \<open>
  The scenario of C3: the range 0:58 to 0:59 removes the snippet that starts at 58.2 and
  keeps the other two, in either order of two ranges.
\<close>

theorem filterSnippets_exclude_witness:
  "filterSnippets [snip ''a'' 58.2, snip ''b'' 60.0, snip ''c'' 61.4]
      (request None None None (Some [(Num 58, Num 59)])) = Inr [snip ''b'' 60.0, snip ''c'' 61.4]
   \<and> filterSnippets [snip ''a'' 58.2, snip ''b'' 60.0, snip ''c'' 61.4]
      (request None None None (Some [(Num 61, Num 62), (Num 58, Num 59)])) =
     filterSnippets [snip ''a'' 58.2, snip ''b'' 60.0, snip ''c'' 61.4]
      (request None None None (Some [(Num 58, Num 59), (Num 61, Num 62)]))
   \<and> length [snip ''b'' 60.0, snip ''c'' 61.4] =
       length [snip ''a'' 58.2, snip ''b'' 60.0, snip ''c'' 61.4] - length [snip ''a'' 58.2]"
proof -
  let ?S = "[snip ''a'' 58.2, snip ''b'' 60.0, snip ''c'' 61.4]"
  let ?O = "request None None None None"
  have set_eq: "set [(Num 61, Num 62), (Num 58, Num 59)] = set [(Num 58, Num 59), (Num 61, Num 62)]"
    by (simp add: insert_commute)
  have "filterSnippets ?S (?O\<lparr>opt_exclude := Some [(Num 58, Num 59)]\<rparr>) =
          Inr (filter (\<lambda>s. \<not> in_some_range [(Num 58, Num 59)] (snip_start s)) ?S)"
    using filterSnippets_exclude
      [where snippets = ?S and opts = ?O and ex = "[(Num 58, Num 59)]" and ex' = "[]",
        THEN conjunct2, THEN conjunct2]
    by simp
  then have one: "filterSnippets ?S (request None None None (Some [(Num 58, Num 59)])) =
      Inr [snip ''b'' 60.0, snip ''c'' 61.4]"
    by (simp add: in_some_range_Cons in_some_range_Nil)
  have "filterSnippets ?S (?O\<lparr>opt_exclude := Some [(Num 61, Num 62), (Num 58, Num 59)]\<rparr>) =
        filterSnippets ?S (?O\<lparr>opt_exclude := Some [(Num 58, Num 59), (Num 61, Num 62)]\<rparr>)"
    using filterSnippets_exclude
      [where snippets = ?S and opts = ?O and ex = "[(Num 58, Num 59), (Num 61, Num 62)]"
         and ex' = "[(Num 61, Num 62), (Num 58, Num 59)]", THEN conjunct2, THEN conjunct1]
      set_eq
    by (rule mp)
  then have two: "filterSnippets ?S (request None None None (Some [(Num 61, Num 62), (Num 58, Num 59)])) =
     filterSnippets ?S (request None None None (Some [(Num 58, Num 59), (Num 61, Num 62)]))"
    by simp
  show ?thesis
    using one two by simp
qed

section \<open>Properties of the selection errors\<close>

text \<open>
  Claim C8, as amended. A request with \<open>from > to\<close> and no non-empty \<open>only\<close> set makes
  \<open>filterSnippets\<close> fail with \<open>InvalidRangeOrder\<close>, which \<open>main\<close> reports once the
  snippets are fetched (timestamps flag set, video given); a request that combines a
  non-empty \<open>only\<close> set with \<open>from\<close> or \<open>to\<close> is rejected by \<open>main\<close> with
  \<open>ConflictingSelection\<close> when the timestamps flag is set and with \<open>TimestampsRequired\<close>
  when it is not; in none of these cases does \<open>main\<close> produce a transcript.
\<close>

theorem selection_errors:
  "(opt_from opts = Some f \<and> opt_to opts = Some t \<and> js_gt f t
      \<and> (opt_only opts = None \<or> opt_only opts = Some []) \<longrightarrow>
      filterSnippets snippets opts = Inl InvalidRangeOrder
      \<and> (\<exists>e. main opts fetch = Inl e)
      \<and> (opt_timestamps opts \<and> opt_video opts = Some v \<and> v \<noteq> [] \<and> fetch v = Inr snippets \<longrightarrow>
           main opts fetch = Inl InvalidRangeOrder))
   \<and> ((opt_from opts \<noteq> None \<or> opt_to opts \<noteq> None) \<and> opt_only opts = Some os \<and> os \<noteq> [] \<longrightarrow>
        main opts fetch =
          Inl (if opt_timestamps opts then ConflictingSelection else TimestampsRequired))"
proof (intro conjI impI)
  assume h: "opt_from opts = Some f \<and> opt_to opts = Some t \<and> js_gt f t
      \<and> (opt_only opts = None \<or> opt_only opts = Some [])"
  then have only: "\<not> (case opt_only opts of None \<Rightarrow> False | Some os \<Rightarrow> 0 < length os)"
    by auto
  from h show fs: "filterSnippets snippets opts = Inl InvalidRangeOrder" for snippets
    using only by (simp add: filterSnippets_def)
  show "\<exists>e. main opts fetch = Inl e"
    using h only by (auto simp: main_def Let_def fs split: option.splits sum.splits)
  show "main opts fetch = Inl InvalidRangeOrder"
    if "opt_timestamps opts \<and> opt_video opts = Some v \<and> v \<noteq> [] \<and> fetch v = Inr snippets"
    using that h only by (simp add: main_def Let_def fs)
next
  assume "(opt_from opts \<noteq> None \<or> opt_to opts \<noteq> None) \<and> opt_only opts = Some os \<and> os \<noteq> []"
  then show "main opts fetch =
          Inl (if opt_timestamps opts then ConflictingSelection else TimestampsRequired)"
    by (auto simp: main_def Let_def)
qed

text \<open>
  Instances of C8: \<open>from = 61\<close> with \<open>to = 60\<close>, and \<open>from = 60\<close> with \<open>only = {60}\<close>.
\<close>

theorem selection_errors_witness:
  "filterSnippets [snip ''a'' 58.2, snip ''b'' 60.0]
      (request (Some (Num 61)) (Some (Num 60)) None None) = Inl InvalidRangeOrder
   \<and> main (request (Some (Num 61)) (Some (Num 60)) None None)
        (\<lambda>v. Inr [snip ''a'' 58.2, snip ''b'' 60.0]) = Inl InvalidRangeOrder
   \<and> main (request (Some (Num 60)) None (Some [Num 60]) None)
        (\<lambda>v. Inr [snip ''a'' 58.2, snip ''b'' 60.0]) = Inl ConflictingSelection"
proof -
  let ?S = "[snip ''a'' 58.2, snip ''b'' 60.0]"
  let ?F = "\<lambda>v::jsstring. Inr ?S :: error + TranscriptSnippet list"
  have gt: "js_gt (Num 61) (Num 60)" by (simp add: js_gt_def)
  have ne: "js ''dQw4w9WgXcQ'' \<noteq> []" by (simp add: js_def)
  have "filterSnippets ?S (request (Some (Num 61)) (Some (Num 60)) None None) = Inl InvalidRangeOrder
      \<and> (\<exists>e. main (request (Some (Num 61)) (Some (Num 60)) None None) ?F = Inl e)
      \<and> main (request (Some (Num 61)) (Some (Num 60)) None None) ?F = Inl InvalidRangeOrder"
    using selection_errors
      [where opts = "request (Some (Num 61)) (Some (Num 60)) None None" and f = "Num 61"
         and t = "Num 60" and snippets = ?S and fetch = ?F and v = "js ''dQw4w9WgXcQ''"
         and os = "[]", THEN conjunct1] gt ne
    by simp
  moreover have "main (request (Some (Num 60)) None (Some [Num 60]) None) ?F
       = Inl ConflictingSelection"
    using selection_errors
      [where opts = "request (Some (Num 60)) None (Some [Num 60]) None" and os = "[Num 60]"
         and fetch = ?F and f = "Num 60" and t = "Num 60" and snippets = ?S
         and v = "[]", THEN conjunct2]
    by simp
  ultimately show ?thesis by blast
qed

text \<open>
  C8 as stated fails for the request with \<open>from = 120\<close>, \<open>to = 60\<close> and \<open>only = {60}\<close>:
  \<open>main\<close> rejects it with \<open>ConflictingSelection\<close> and \<open>filterSnippets\<close> returns the
  snippets selected by \<open>only\<close>, so \<open>InvalidRangeOrder\<close> is reported nowhere. Without the
  timestamps flag a request with \<open>from\<close> and \<open>only\<close> is rejected with
  \<open>TimestampsRequired\<close>.
\<close>

theorem selection_errors_counterexample:
  "main (request (Some (Num 120)) (Some (Num 60)) (Some [Num 60]) None)
        (\<lambda>v. Inr [snip ''b'' 60]) = Inl ConflictingSelection
   \<and> filterSnippets [snip ''b'' 60] (request (Some (Num 120)) (Some (Num 60)) (Some [Num 60]) None)
       = Inr [snip ''b'' 60]
   \<and> main ((request (Some (Num 0)) None (Some [Num 60]) None)\<lparr>opt_timestamps := False\<rparr>)
        (\<lambda>v. Inr [snip ''b'' 60]) = Inl TimestampsRequired"
  by (simp add: main_def filterSnippets_def)

section \<open>Properties of the track metadata\<close>

lemma js_includes_sublist: "js_includes s pat = sublist pat s"
  by (induction s) (simp_all add: sublist_Cons_right)

text \<open>
  Claim C5, as amended. \<open>getCaptionTracks\<close> proceeds when the playability status is
  absent, empty or \<open>OK\<close>: it then fails with \<open>CaptionsDisabled\<close> when the caption-track
  list is missing or empty and returns the list unchanged otherwise. When the status is
  not empty and not \<open>OK\<close>, it fails: with \<open>RequestBlocked\<close> when the status is
  \<open>LOGIN_REQUIRED\<close> and the reason contains \<open>bot\<close>, else with \<open>AgeRestricted\<close> when
  the reason contains \<open>inappropriate\<close>, else with \<open>VideoUnavailable\<close> when it contains
  \<open>unavailable\<close>, else with \<open>VideoUnplayable\<close> carrying the reason; the reason is the
  status itself when the response gives none.
\<close>

theorem getCaptionTracks_cases:
  "(status_of data = None \<or> status_of data = Some [] \<or> status_of data = Some (js ''OK'') \<longrightarrow>
      getCaptionTracks data videoId =
        (case tracks_of data of
           None \<Rightarrow> Inl CaptionsDisabled
         | Some tracks \<Rightarrow> if tracks = [] then Inl CaptionsDisabled else Inr tracks))
   \<and> (status_of data = Some st \<and> st \<noteq> [] \<and> st \<noteq> js ''OK'' \<longrightarrow>
        getCaptionTracks data videoId =
          Inl (let rsn = (case reason_of data of None \<Rightarrow> st | Some r \<Rightarrow> r)
               in if st = js ''LOGIN_REQUIRED'' \<and> sublist (js ''bot'') rsn then RequestBlocked
                  else if sublist (js ''inappropriate'') rsn then AgeRestricted
                  else if sublist (js ''unavailable'') rsn then VideoUnavailable
                  else VideoUnplayable rsn))"
  by (auto simp: getCaptionTracks_def status_of_def reason_of_def tracks_of_def Let_def
        js_includes_sublist split: option.splits)
text \<open>
  Instances of C5: a blocked request, an unplayable video without a reason, a playable
  video with one track, and a response without a status whose track list is empty.
\<close>

theorem getCaptionTracks_cases_witness:
  "getCaptionTracks
     \<lparr>playabilityStatus = Some \<lparr>status = Some (js ''LOGIN_REQUIRED''),
        reason = Some (js ''Sign in to confirm you are not a bot'')\<rparr>,
      captions = None\<rparr> (js ''dQw4w9WgXcQ'') = Inl RequestBlocked
   \<and> getCaptionTracks
     \<lparr>playabilityStatus = Some \<lparr>status = Some (js ''ERROR''), reason = None\<rparr>,
      captions = None\<rparr> (js ''dQw4w9WgXcQ'') = Inl (VideoUnplayable (js ''ERROR''))
   \<and> getCaptionTracks
     \<lparr>playabilityStatus = Some \<lparr>status = Some (js ''OK''), reason = None\<rparr>,
      captions = Some \<lparr>playerCaptionsTracklistRenderer = Some \<lparr>captionTracks = Some
        [\<lparr>baseUrl = js ''https://example.com/api/timedtext?v=x'', languageCode = js ''en'',
          kind = Some (js ''asr''), name = None\<rparr>]\<rparr>\<rparr>\<rparr>
     (js ''dQw4w9WgXcQ'') =
     Inr [\<lparr>baseUrl = js ''https://example.com/api/timedtext?v=x'', languageCode = js ''en'',
           kind = Some (js ''asr''), name = None\<rparr>]
   \<and> getCaptionTracks
     \<lparr>playabilityStatus = None,
      captions = Some \<lparr>playerCaptionsTracklistRenderer = Some \<lparr>captionTracks = Some []\<rparr>\<rparr>\<rparr>
     (js ''dQw4w9WgXcQ'') = Inl CaptionsDisabled"
proof -
  let ?D1 = "\<lparr>playabilityStatus = Some \<lparr>status = Some (js ''LOGIN_REQUIRED''),
        reason = Some (js ''Sign in to confirm you are not a bot'')\<rparr>, captions = None\<rparr>"
  let ?D2 = "\<lparr>playabilityStatus = Some \<lparr>status = Some (js ''ERROR''), reason = None\<rparr>,
      captions = None\<rparr>"
  let ?T = "[\<lparr>baseUrl = js ''https://example.com/api/timedtext?v=x'', languageCode = js ''en'',
          kind = Some (js ''asr''), name = None\<rparr>]"
  let ?D3 = "\<lparr>playabilityStatus = Some \<lparr>status = Some (js ''OK''), reason = None\<rparr>,
      captions = Some \<lparr>playerCaptionsTracklistRenderer = Some \<lparr>captionTracks = Some ?T\<rparr>\<rparr>\<rparr>"
  let ?D4 = "\<lparr>playabilityStatus = None,
      captions = Some \<lparr>playerCaptionsTracklistRenderer = Some \<lparr>captionTracks = Some []\<rparr>\<rparr>\<rparr>
      :: InnertubePlayerResponse"
  let ?V = "js ''dQw4w9WgXcQ''"
  have bot: "sublist (js ''bot'') (js ''Sign in to confirm you are not a bot'')"
    unfolding js_includes_sublist [symmetric] by (simp add: js_def)
  have no1: "\<not> sublist (js ''inappropriate'') (js ''ERROR'')"
    and no2: "\<not> sublist (js ''unavailable'') (js ''ERROR'')"
    unfolding js_includes_sublist [symmetric] by (simp_all add: js_def)
  have "getCaptionTracks ?D1 ?V = Inl RequestBlocked"
    using getCaptionTracks_cases
      [where data = ?D1 and st = "js ''LOGIN_REQUIRED''" and videoId = ?V, THEN conjunct2] bot
    by (simp add: status_of_def reason_of_def js_def)
  moreover have "getCaptionTracks ?D2 ?V = Inl (VideoUnplayable (js ''ERROR''))"
    using getCaptionTracks_cases
      [where data = ?D2 and st = "js ''ERROR''" and videoId = ?V, THEN conjunct2] no1 no2
    by (simp add: status_of_def reason_of_def js_def)
  moreover have "getCaptionTracks ?D3 ?V = Inr ?T"
    using getCaptionTracks_cases [where data = ?D3 and st = "[]" and videoId = ?V, THEN conjunct1]
    by (simp add: status_of_def tracks_of_def)
  moreover have "getCaptionTracks ?D4 ?V = Inl CaptionsDisabled"
    using getCaptionTracks_cases [where data = ?D4 and st = "[]" and videoId = ?V, THEN conjunct1]
    by (simp add: status_of_def tracks_of_def)
  ultimately show ?thesis by blast
qed
text \<open>
  C5 as stated fails for a status that is present and empty: it is not \<open>OK\<close>, and
  \<open>getCaptionTracks\<close> proceeds and returns the tracks.
\<close>

theorem getCaptionTracks_empty_status_counterexample:
  "getCaptionTracks
     \<lparr>playabilityStatus = Some \<lparr>status = Some [], reason = Some (js ''Video unavailable'')\<rparr>,
      captions = Some \<lparr>playerCaptionsTracklistRenderer = Some \<lparr>captionTracks = Some
        [\<lparr>baseUrl = js ''https://example.com/api/timedtext?v=x'', languageCode = js ''en'',
          kind = None, name = None\<rparr>]\<rparr>\<rparr>\<rparr>
     (js ''dQw4w9WgXcQ'') =
   Inr [\<lparr>baseUrl = js ''https://example.com/api/timedtext?v=x'', languageCode = js ''en'',
         kind = None, name = None\<rparr>]"
  by (simp add: getCaptionTracks_def)

section \<open>Properties of the string primitives\<close>



section \<open>Properties of the time parser\<close>

lemma is_digit_not_ws: "is_digit c \<Longrightarrow> \<not> is_ws c"
  by (auto simp: is_digit_def is_ws_def)

lemma parseInt10_digits:
  assumes "all_digits ds"
  shows "parseInt10 ds = Some (int (digits_value ds))"
proof -
  from assms obtain c r where ds: "ds = c # r" and c: "is_digit c"
    by (cases ds) (auto simp: all_digits_def)
  have tw: "takeWhile is_digit ds = ds"
    using assms by (simp add: all_digits_def list_all_iff)
  have c': "c \<noteq> 43" "c \<noteq> 45" "\<not> is_ws c"
    using c is_digit_not_ws [OF c] by (auto simp: is_digit_def)
  have dw: "dropWhile is_ws ds = ds"
    using c' by (simp add: ds)
  show ?thesis
    unfolding parseInt10_def dw using c' tw by (simp add: ds)
qed

lemma trim_core:
  assumes "all_ws w1" and "all_ws w2" and "core \<noteq> []"
    and "\<not> is_ws (hd core)" and "\<not> is_ws (last core)"
  shows "trim (w1 @ core @ w2) = core"
proof -
  have 1: "dropWhile is_ws (w1 @ core @ w2) = core @ w2"
    using assms(1,3,4) by (cases core) (simp_all add: all_ws_def list_all_iff)
  have "dropWhile is_ws (rev w2 @ rev core) = dropWhile is_ws (rev core)"
    by (rule dropWhile_append2) (use assms(2) in \<open>simp add: all_ws_def list_all_iff\<close>)
  also have "\<dots> = rev core"
    using assms(3,5) by (cases core rule: rev_cases) simp_all
  finally show ?thesis
    by (simp add: trim_def 1)
qed

lemma js_split_no_sep: "c \<notin> set a \<Longrightarrow> js_split c a = [a]"
  by (induction a) auto

lemma js_split_append: "c \<notin> set a \<Longrightarrow> js_split c (a @ c # b) = a # js_split c b"
  by (induction a) auto


lemma all_digits_facts:
  assumes "all_digits ds"
  shows "ds \<noteq> []" and "\<not> is_ws (hd ds)" and "\<not> is_ws (last ds)" and "58 \<notin> set ds"
proof -
  from assms show ne: "ds \<noteq> []" by (simp add: all_digits_def)
  from assms have all: "\<And>c. c \<in> set ds \<Longrightarrow> is_digit c"
    by (simp add: all_digits_def list_all_iff)
  show "\<not> is_ws (hd ds)" using all [of "hd ds"] ne by (simp add: is_digit_not_ws)
  show "\<not> is_ws (last ds)" using all [of "last ds"] ne by (simp add: is_digit_not_ws)
  show "58 \<notin> set ds" using all [of 58] by (auto simp: is_digit_def)
qed

lemma parseTimeString_two:
  assumes "all_ws w1" and "all_ws w2" and "all_digits m" and "all_digits sec"
  shows "parseTimeString (w1 @ m @ 58 # sec @ w2) =
           (if digits_value sec \<le> 59
            then Inr (int (digits_value m) * 60 + int (digits_value sec))
            else Inl InvalidTimeFormat)"
proof -
  note m = all_digits_facts [OF assms(3)] and s = all_digits_facts [OF assms(4)]
  have "trim (w1 @ (m @ 58 # sec) @ w2) = m @ 58 # sec"
    using m s by (intro trim_core assms) (simp_all add: hd_append)
  then have tr: "trim (w1 @ m @ 58 # sec @ w2) = m @ 58 # sec" by simp
  have sp: "js_split 58 (m @ 58 # sec) = [m, sec]"
    using m s by (simp add: js_split_append js_split_no_sep)
  show ?thesis
    unfolding parseTimeString_def tr
    by (simp add: Let_def sp parseInt10_digits [OF assms(3)] parseInt10_digits [OF assms(4)])
qed

lemma parseTimeString_three:
  assumes "all_ws w1" and "all_ws w2" and "all_digits h" and "all_digits m" and "all_digits sec"
  shows "parseTimeString (w1 @ h @ 58 # m @ 58 # sec @ w2) =
           (if digits_value m \<le> 59 \<and> digits_value sec \<le> 59
            then Inr (int (digits_value h) * 3600 + int (digits_value m) * 60
                      + int (digits_value sec))
            else Inl InvalidTimeFormat)"
proof -
  note h = all_digits_facts [OF assms(3)] and m = all_digits_facts [OF assms(4)]
    and s = all_digits_facts [OF assms(5)]
  have "trim (w1 @ (h @ 58 # m @ 58 # sec) @ w2) = h @ 58 # m @ 58 # sec"
    using h s by (intro trim_core assms) (simp_all add: hd_append)
  then have tr: "trim (w1 @ h @ 58 # m @ 58 # sec @ w2) = h @ 58 # m @ 58 # sec" by simp
  have sp: "js_split 58 (h @ 58 # m @ 58 # sec) = [h, m, sec]"
    using h m s by (simp add: js_split_append js_split_no_sep)
  show ?thesis
    unfolding parseTimeString_def tr
    by (simp add: Let_def sp parseInt10_digits [OF assms(3)] parseInt10_digits [OF assms(4)]
          parseInt10_digits [OF assms(5)])
qed





section \<open>Properties of the range parser\<close>






section \<open>Properties of the timestamps\<close>

lemma padStart_digits10:
  assumes "k < 100"
  shows "padStart (digits10 k) 2 (js ''0'') = two_digits k"
proof (cases "k < 10")
  case True
  then show ?thesis
    by (simp add: digits10.simps [of k] padStart_def js_def two_digits_def)
next
  case False
  with assms have "k div 10 < 10" by simp
  with False show ?thesis
    by (simp add: digits10.simps [of k] digits10.simps [of "k div 10"] padStart_def two_digits_def)
qed

lemma all_digits_two_digits: "all_digits (two_digits k) = (k < 100)"
  by (auto simp: all_digits_def two_digits_def is_digit_def)

lemma digits_value_two_digits: "digits_value (two_digits k) = k"
  by (simp add: digits_value_def two_digits_def)

lemma floor_div_nat: "Math_floor (js_div (Num (real n)) (real d)) = Num (real (n div d))"
  by (simp add: floor_divide_of_nat_eq)

lemma js_rem_nat: "js_rem (Num (real n)) (real d) = Num (real (n mod d))"
proof -
  have "real (n mod d) = real n - real d * real (n div d)"
    by (metis add_diff_cancel_left' mult_div_mod_eq of_nat_add of_nat_mult)
  then show ?thesis
    by (simp add: floor_divide_of_nat_eq)
qed

lemma Math_floor_nat: "Math_floor (Num (real k)) = Num (real k)"
  by simp

lemma String_number_nat: "String_number (Num (real k)) = digits10 k"
  by (simp add: String_int_def)

lemma formatTimestamp_nat:
  "formatTimestamp (Num (real n)) =
     (if 0 < n div 3600 then
        padStart (digits10 (n div 3600)) 2 (js ''0'') @ js '':''
          @ padStart (digits10 (n mod 3600 div 60)) 2 (js ''0'') @ js '':''
          @ padStart (digits10 (n mod 60)) 2 (js ''0'')
      else
        padStart (digits10 (n mod 3600 div 60)) 2 (js ''0'') @ js '':''
          @ padStart (digits10 (n mod 60)) 2 (js ''0''))"
proof -
  have h: "Math_floor (js_div (Num (real n)) 3600) = Num (real (n div 3600))"
    using floor_div_nat [of n 3600] by simp
  have m: "Math_floor (js_div (js_rem (Num (real n)) 3600) 60) = Num (real (n mod 3600 div 60))"
    using js_rem_nat [of n 3600] floor_div_nat [of "n mod 3600" 60] by simp
  have s: "Math_floor (js_rem (Num (real n)) 60) = Num (real (n mod 60))"
    using js_rem_nat [of n 60] Math_floor_nat [of "n mod 60"] by simp
  show ?thesis
    unfolding formatTimestamp_def h m s Let_def String_number_nat
    by (simp add: js_gt_def)
qed

text \<open>
  Claim C9. For every whole number of seconds \<open>n\<close> below 86400, \<open>formatTimestamp\<close>
  renders minutes and seconds when the hours are 0 and hours, minutes and seconds
  otherwise, every component with exactly two digits, and \<open>parseTimeString\<close> reads the
  rendering back as \<open>n\<close>.
\<close>

theorem formatTimestamp_roundtrip:
  assumes "n < 86400"
  shows "formatTimestamp (Num (real n)) =
           (if n div 3600 = 0 then two_digits (n div 60) @ js '':'' @ two_digits (n mod 60)
            else two_digits (n div 3600) @ js '':'' @ two_digits (n mod 3600 div 60) @ js '':''
                   @ two_digits (n mod 60))
         \<and> parseTimeString (formatTimestamp (Num (real n))) = Inr (int n)"
proof -
  have hh: "n div 3600 < 100" using assms by simp
  have mm: "n mod 3600 div 60 < 60" by simp
  have ss: "n mod 60 < 60" by simp
  have fmt: "formatTimestamp (Num (real n)) =
           (if n div 3600 = 0 then two_digits (n div 60) @ js '':'' @ two_digits (n mod 60)
            else two_digits (n div 3600) @ js '':'' @ two_digits (n mod 3600 div 60) @ js '':''
                   @ two_digits (n mod 60))"
  proof (cases "n div 3600 = 0")
    case True
    then have "n mod 3600 = n" by simp
    with True mm ss show ?thesis
      by (simp add: formatTimestamp_nat padStart_digits10)
  next
    case False
    with hh mm ss show ?thesis
      by (simp add: formatTimestamp_nat padStart_digits10)
  qed
  have ws: "all_ws []" by (simp add: all_ws_def)
  have colon: "js '':'' = [58]" by (simp add: js_def)
  have "parseTimeString (formatTimestamp (Num (real n))) = Inr (int n)"
  proof (cases "n div 3600 = 0")
    case True
    then have lt: "n < 3600" by simp
    then have d: "all_digits (two_digits (n div 60))" "all_digits (two_digits (n mod 60))"
      by (simp_all add: all_digits_two_digits)
    have e: "int (n div 60) * 60 + int (n mod 60) = int n"
      by (simp add: zdiv_int zmod_int)
    have "parseTimeString ([] @ two_digits (n div 60) @ 58 # two_digits (n mod 60) @ []) =
            Inr (int n)"
      unfolding parseTimeString_two [OF ws ws d] digits_value_two_digits
      using ss by (simp add: e)
    with True show ?thesis by (simp add: fmt colon)
  next
    case False
    have d: "all_digits (two_digits (n div 3600))" "all_digits (two_digits (n mod 3600 div 60))"
      "all_digits (two_digits (n mod 60))"
      using hh mm by (simp_all add: all_digits_two_digits)
    have n: "n div 3600 * 3600 + n mod 3600 div 60 * 60 + n mod 60 = n"
    proof -
      have "n mod 3600 div 60 * 60 + n mod 3600 mod 60 = n mod 3600" by simp
      moreover have "n mod 3600 mod 60 = n mod 60"
        by (simp add: mod_mod_cancel)
      moreover have "n div 3600 * 3600 + n mod 3600 = n" by simp
      ultimately show ?thesis by linarith
    qed
    have "parseTimeString ([] @ two_digits (n div 3600) @ 58 # two_digits (n mod 3600 div 60)
             @ 58 # two_digits (n mod 60) @ []) = Inr (int n)"
      unfolding parseTimeString_three [OF ws ws d] digits_value_two_digits
      using mm ss n by (simp flip: of_nat_mult of_nat_add)
    with False show ?thesis by (simp add: fmt colon)
  qed
  with fmt show ?thesis by simp
qed

text \<open>The instance 3661 of C9: one hour, one minute and one second.\<close>

theorem formatTimestamp_roundtrip_witness:
  "formatTimestamp (Num 3661) = js ''01:01:01'' \<and> parseTimeString (js ''01:01:01'') = Inr 3661"
proof -
  have "(3661::nat) < 86400" by simp
  note r = formatTimestamp_roundtrip [OF this]
  have a: "formatTimestamp (Num 3661) = js ''01:01:01''"
    using r [THEN conjunct1] by (simp add: two_digits_def js_def)
  have "parseTimeString (formatTimestamp (Num 3661)) = Inr 3661"
    using r [THEN conjunct2] by simp
  then have b: "parseTimeString (js ''01:01:01'') = Inr 3661"
    unfolding a .
  from a b show ?thesis by (rule conjI)
qed

section \<open>Properties of the entity unescaping\<close>




lemma strip_tags_skip: "60 \<notin> set t \<Longrightarrow> strip_tags (t @ s) = t @ strip_tags s"
  by (induction t) simp_all





section \<open>Properties of the timed-text parser\<close>














end
